theory Spec2Isabelle
  imports Main
begin

section \<open>EntityTypoFixer: a shallow embedding of \<^verbatim>\<open>addons/my_custom_components.py\<close>\<close>

text \<open>
  The component corrects the \<^verbatim>\<open>value\<close> of extracted entity records by snapping it to
  the closest string of a list of canonical values. It is a subclass of a host class and
  calls an external fuzzy-matching library; what it consumes from outside is collected in
  the record \<open>host\<close> and taken as a parameter by every operation.

  Conventions of the embedding:
  \<^item> Python values that the code stores in dictionaries typed \<^verbatim>\<open>Dict[Text, Any]\<close> are
    values of \<open>pyval\<close>: \<^verbatim>\<open>None\<close>, integers, text and lists. Floats, booleans and nested
    dictionaries are outside the model.
  \<^item> A dictionary is a map \<open>string \<rightharpoonup> pyval\<close>. A method that mutates a dictionary or
    \<^verbatim>\<open>self\<close> in place returns the updated value. Lists inside records are values: two
    records never share one list object.
  \<^item> A raised exception is a value of \<open>py_error\<close>. The per-message operation mutates
    records before it may raise, so it returns the records as they are when it stops
    together with the exception, if any.
  \<^item> The file system is a map from paths to the documents stored there.
\<close>

subsection \<open>Values, errors, the host\<close>

datatype pyval = PNone | PInt int | PStr string | PList "pyval list"

datatype py_error = KeyError | AttributeError | TypeError | JsonError

type_synonym pydict = "string \<rightharpoonup> pyval"

type_synonym entity = "string \<rightharpoonup> pyval"

text \<open>
  What the component takes from its host framework, from Python and from the
  fuzzy-matching library:
  \<^item> \<open>str_nontext\<close>: the built-in \<^verbatim>\<open>str\<close> on values that are not text;
  \<^item> \<open>scorer\<close>: the library's similarity score of a query against one choice (its default
    processing followed by its default scorer), an integer;
  \<^item> \<open>name\<close>: the property \<^verbatim>\<open>self.name\<close> that the host's base class defines;
  \<^item> \<open>path_join\<close>: \<^verbatim>\<open>os.path.join\<close> on two arguments.
\<close>

record host =
  str_nontext :: "pyval \<Rightarrow> string"
  scorer :: "string \<Rightarrow> string \<Rightarrow> int"
  name :: string
  path_join :: "string \<Rightarrow> string \<Rightarrow> string"

text \<open>\<^verbatim>\<open>str(x)\<close>: the identity on text, the host's conversion on everything else.\<close>

definition py_str :: "host \<Rightarrow> pyval \<Rightarrow> string" where
  "py_str h x = (case x of PStr s \<Rightarrow> s | _ \<Rightarrow> str_nontext h x)"

text \<open>Python's truth value of an object, as \<^verbatim>\<open>if x\<close> and \<^verbatim>\<open>not x\<close> test it.\<close>

fun truthy :: "pyval \<Rightarrow> bool" where
  "truthy PNone = False"
| "truthy (PInt i) = (i \<noteq> 0)"
| "truthy (PStr s) = (s \<noteq> [])"
| "truthy (PList xs) = (xs \<noteq> [])"

subsection \<open>The component and its constructor\<close>

text \<open>The instance attributes \<^verbatim>\<open>self.entities\<close> and \<^verbatim>\<open>self.score_cutoff\<close>.\<close>

record component =
  entities :: "string list"
  score_cutoff :: pyval

text \<open>The class attribute \<^verbatim>\<open>defaults = {"score_cutoff": 80}\<close>.\<close>

definition defaults :: pydict where
  "defaults = [''score_cutoff'' \<mapsto> PInt 80]"

text \<open>
  \<^verbatim>\<open>__init__(self, component_config=None, entities=None)\<close>. The call of the base class's
  constructor accepts \<^verbatim>\<open>None\<close> and does not change what the two attributes are set to.
  \<^verbatim>\<open>component_config.get\<close> on \<^verbatim>\<open>None\<close> raises \<^verbatim>\<open>AttributeError\<close>;
  \<^verbatim>\<open>self.defaults["score_cutoff"]\<close> is evaluated after that lookup of \<^verbatim>\<open>get\<close>.
\<close>

definition init :: "pydict option \<Rightarrow> string list option \<Rightarrow> py_error + component" where
  "init component_config ents =
     (let self_entities = (case ents of None \<Rightarrow> [] | Some es \<Rightarrow> if es \<noteq> [] then es else [])
      in case component_config of
           None \<Rightarrow> Inl AttributeError
         | Some cfg \<Rightarrow>
             (case defaults ''score_cutoff'' of
                None \<Rightarrow> Inl KeyError
              | Some d \<Rightarrow>
                  Inr \<lparr>entities = self_entities,
                       score_cutoff = (case cfg ''score_cutoff'' of Some c \<Rightarrow> c | None \<Rightarrow> d)\<rparr>))"

subsection \<open>Training\<close>

text \<open>
  The training corpus exposes \<^verbatim>\<open>entity_synonyms\<close>, a dictionary; Python dictionaries keep
  insertion order, so it is an association list, whose keys are distinct in a dictionary.
  \<^verbatim>\<open>train\<close> returns \<^verbatim>\<open>None\<close>: the model returns the updated component only.
\<close>

record training_data =
  entity_synonyms :: "(string \<times> string) list"

definition train :: "component \<Rightarrow> training_data \<Rightarrow> component" where
  "train self td = self\<lparr>entities := map fst (entity_synonyms td)\<rparr>"

subsection \<open>The fuzzy-matching routine\<close>

text \<open>
  The comparison \<^verbatim>\<open>score >= score_cutoff\<close> of an integer score with the configured
  cutoff: Python raises \<^verbatim>\<open>TypeError\<close> when the cutoff is \<^verbatim>\<open>None\<close>, text or a list.
\<close>

fun score_ge :: "int \<Rightarrow> pyval \<Rightarrow> py_error + bool" where
  "score_ge s (PInt c) = Inr (c \<le> s)"
| "score_ge s _ = Inl TypeError"

text \<open>
  Modelled from the spec: \<^verbatim>\<open>process.extractOne(query, choices, score_cutoff=c)\<close> belongs to
  the external fuzzy-matching library, which is not part of the repository. It scores the
  query against every choice, keeps the choices whose score is at or above the cutoff
  (\<open>extractWithoutOrder\<close>), and returns the pair of the highest-scoring choice and its score,
  the first one met among equals (\<open>first_max\<close>, Python's \<^verbatim>\<open>max\<close>), or \<^verbatim>\<open>None\<close> when no
  choice is kept.
\<close>

fun extractWithoutOrder ::
  "(string \<Rightarrow> string \<Rightarrow> int) \<Rightarrow> string \<Rightarrow> string list \<Rightarrow> pyval \<Rightarrow> py_error + (string \<times> int) list"
where
  "extractWithoutOrder sc query [] cutoff = Inr []"
| "extractWithoutOrder sc query (choice # choices) cutoff =
     (case score_ge (sc query choice) cutoff of
        Inl e \<Rightarrow> Inl e
      | Inr keep \<Rightarrow>
          (case extractWithoutOrder sc query choices cutoff of
             Inl e \<Rightarrow> Inl e
           | Inr rest \<Rightarrow> Inr (if keep then (choice, sc query choice) # rest else rest)))"

text \<open>
  Modelled from the spec: the choice among the kept pairs, Python's \<^verbatim>\<open>max\<close> on the score:
  the highest score wins, and the earlier pair wins among equal scores.
\<close>

fun first_max :: "(string \<times> int) list \<Rightarrow> (string \<times> int) option" where
  "first_max [] = None"
| "first_max (p # ps) =
     (case first_max ps of
        None \<Rightarrow> Some p
      | Some q \<Rightarrow> if snd p < snd q then Some q else Some p)"

text \<open>
  Modelled from the spec: \<^verbatim>\<open>extractOne\<close> itself, the best of the kept pairs or \<^verbatim>\<open>None\<close>;
  an exception of the comparison with the cutoff propagates.
\<close>

definition extractOne ::
  "(string \<Rightarrow> string \<Rightarrow> int) \<Rightarrow> string \<Rightarrow> string list \<Rightarrow> pyval \<Rightarrow> py_error + (string \<times> int) option"
where
  "extractOne sc query choices cutoff =
     (case extractWithoutOrder sc query choices cutoff of
        Inl e \<Rightarrow> Inl e
      | Inr best_list \<Rightarrow> Inr (first_max best_list))"

text \<open>
  Modelled from the spec: the spec's own notion, used to state the claims: the best fuzzy match of a text against
  the canonical list is the highest-scoring canonical string with its score, the first one
  in list order among equals, whatever the cutoff.
\<close>

definition best_match ::
  "(string \<Rightarrow> string \<Rightarrow> int) \<Rightarrow> string \<Rightarrow> string list \<Rightarrow> (string \<times> int) option"
where
  "best_match sc v L = first_max (map (\<lambda>m. (m, sc v m)) L)"

subsection \<open>Correcting entity records\<close>

text \<open>
  \<^verbatim>\<open>add_processor_name\<close>: \<^verbatim>\<open>append\<close> exists on lists only, so a \<^verbatim>\<open>processors\<close> entry that
  is not a list raises \<^verbatim>\<open>AttributeError\<close>.
\<close>

definition add_processor_name :: "host \<Rightarrow> entity \<Rightarrow> entity \<times> py_error option" where
  "add_processor_name h entity =
     (case entity ''processors'' of
        Some (PList ps) \<Rightarrow> (entity(''processors'' \<mapsto> PList (ps @ [PStr (name h)])), None)
      | Some _ \<Rightarrow> (entity, Some AttributeError)
      | None \<Rightarrow> (entity(''processors'' \<mapsto> PList [PStr (name h)]), None))"

text \<open>
  The body of the loop of \<^verbatim>\<open>fix_entity_typo\<close> on one record. \<^verbatim>\<open>entity["value"]\<close> raises
  \<^verbatim>\<open>KeyError\<close> on a record without that key. The value is overwritten before
  \<^verbatim>\<open>add_processor_name\<close> runs, so the overwrite stays when that call raises.
\<close>

definition fix_one :: "host \<Rightarrow> component \<Rightarrow> entity \<Rightarrow> entity \<times> py_error option" where
  "fix_one h self entity =
     (case entity ''value'' of
        None \<Rightarrow> (entity, Some KeyError)
      | Some x \<Rightarrow>
          (let entity_value = py_str h x in
           case extractOne (scorer h) entity_value (entities self) (score_cutoff self) of
             Inl e \<Rightarrow> (entity, Some e)
           | Inr None \<Rightarrow> (entity, None)
           | Inr (Some fuzzy_match) \<Rightarrow>
               (let fuzzy_entity = fst fuzzy_match in
                if fuzzy_entity \<noteq> entity_value
                then add_processor_name h (entity(''value'' \<mapsto> PStr fuzzy_entity))
                else (entity, None))))"

text \<open>
  The loop \<^verbatim>\<open>for entity in entities\<close>: it stops at the first exception, leaving the
  records after it untouched.
\<close>

fun fix_loop :: "host \<Rightarrow> component \<Rightarrow> entity list \<Rightarrow> entity list \<times> py_error option" where
  "fix_loop h self [] = ([], None)"
| "fix_loop h self (entity # rest) =
     (case fix_one h self entity of
        (entity', Some e) \<Rightarrow> (entity' # rest, Some e)
      | (entity', None) \<Rightarrow>
          (case fix_loop h self rest of (rest', r) \<Rightarrow> (entity' # rest', r)))"

text \<open>
  \<^verbatim>\<open>fix_entity_typo(self, entities)\<close>: the component after the call, the records after
  the call, and the exception raised, if any.
\<close>

definition fix_entity_typo ::
  "host \<Rightarrow> component \<Rightarrow> entity list \<Rightarrow> component \<times> entity list \<times> py_error option"
where
  "fix_entity_typo h self ents = (self, fix_loop h self ents)"

subsection \<open>Processing a message\<close>

text \<open>
  Modelled from the spec: the host's message object, which gives get and set access to its
  properties and records which of them contribute to the final output. Only properties
  holding entity records are modelled.
\<close>

record message =
  data :: "string \<rightharpoonup> entity list"
  output_properties :: "string set"

definition ENTITIES :: string where
  "ENTITIES = ''entities''"

text \<open>
  \<^verbatim>\<open>process(self, message)\<close>. The records are mutated in place: when the message holds
  the list, the message sees the records as they are when \<^verbatim>\<open>fix_entity_typo\<close> raises.
\<close>

definition process :: "host \<Rightarrow> component \<Rightarrow> message \<Rightarrow> component \<times> message \<times> py_error option" where
  "process h self msg =
     (let held = data msg ENTITIES;
          extracted_entities = (case held of None \<Rightarrow> [] | Some es \<Rightarrow> es)
      in case fix_entity_typo h self extracted_entities of
           (self', fixed, Some e) \<Rightarrow>
             (self',
              (case held of None \<Rightarrow> msg | Some _ \<Rightarrow> msg\<lparr>data := (data msg)(ENTITIES \<mapsto> fixed)\<rparr>),
              Some e)
         | (self', fixed, None) \<Rightarrow>
             (self',
              msg\<lparr>data := (data msg)(ENTITIES \<mapsto> fixed),
                  output_properties := insert ENTITIES (output_properties msg)\<rparr>,
              None))"

subsection \<open>Persisting and loading\<close>

text \<open>
  A stored file holds a JSON array of strings, or text that is not JSON. Writing a list with
  \<^verbatim>\<open>write_json_to_file\<close> stores the array; \<^verbatim>\<open>read_json_file\<close> returns the array or raises
  on text that is not JSON. Other JSON documents are outside the model, as the attribute is
  typed \<^verbatim>\<open>List[Text]\<close>. A path is a regular file exactly when the map holds it, and a
  write always succeeds.
\<close>

datatype file_content = JsonStrings "string list" | NotJson

type_synonym files = "string \<rightharpoonup> file_content"

definition write_json_to_file :: "files \<Rightarrow> string \<Rightarrow> string list \<Rightarrow> files" where
  "write_json_to_file fs path obj = fs(path \<mapsto> JsonStrings obj)"

fun read_json_content :: "file_content \<Rightarrow> py_error + string list" where
  "read_json_content (JsonStrings xs) = Inr xs"
| "read_json_content NotJson = Inl JsonError"

text \<open>\<^verbatim>\<open>persist(self, file_name, model_dir)\<close>: the descriptor returned and the files after.\<close>

definition persist :: "host \<Rightarrow> component \<Rightarrow> string \<Rightarrow> string \<Rightarrow> files \<Rightarrow> pydict \<times> files" where
  "persist h self file_name model_dir fs =
     (if entities self \<noteq> [] then
        (let file_name' = file_name @ ''.json'';
             entity_file = path_join h model_dir file_name'
         in ([''file'' \<mapsto> PStr file_name'], write_json_to_file fs entity_file (entities self)))
      else ([''file'' \<mapsto> PNone], fs))"

text \<open>
  \<^verbatim>\<open>load(cls, meta, model_dir)\<close>. \<^verbatim>\<open>meta.get("file")\<close> is \<^verbatim>\<open>None\<close> for a missing key;
  \<^verbatim>\<open>os.path.join\<close> raises \<^verbatim>\<open>TypeError\<close> on a name that is not text.
\<close>

definition load :: "host \<Rightarrow> pydict \<Rightarrow> string \<Rightarrow> files \<Rightarrow> py_error + component" where
  "load h meta model_dir fs =
     (let file_name = (case meta ''file'' of None \<Rightarrow> PNone | Some v \<Rightarrow> v)
      in if \<not> truthy file_name then init (Some meta) None
         else
           (case file_name of
              PStr f \<Rightarrow>
                (let entities_file = path_join h model_dir f
                 in case fs entities_file of
                      Some content \<Rightarrow>
                        (case read_json_content content of
                           Inl e \<Rightarrow> Inl e
                         | Inr ents \<Rightarrow> init (Some meta) (Some ents))
                    | None \<Rightarrow> init (Some meta) None)
            | _ \<Rightarrow> Inl TypeError))"

subsection \<open>Well-formed records, and a small host for concrete runs\<close>

text \<open>
  The data model's entity record: a mapping with a \<^verbatim>\<open>value\<close> field and an optional
  \<^verbatim>\<open>processors\<close> field that holds a sequence.
\<close>

definition well_formed :: "entity \<Rightarrow> bool" where
  "well_formed e =
     (e ''value'' \<noteq> None \<and>
      (case e ''processors'' of None \<Rightarrow> True | Some (PList ps) \<Rightarrow> True | Some _ \<Rightarrow> False))"

text \<open>
  A host to run the operations on concrete inputs: a scorer that gives 100 to equal strings
  and 85 to strings with the same first four characters, the component's class name, and
  paths joined with a slash. The records of the concrete runs hold text values, on which
  \<open>str_nontext\<close> is never called.
\<close>

definition prefix_scorer :: "string \<Rightarrow> string \<Rightarrow> int" where
  "prefix_scorer q ch = (if q = ch then 100 else if take 4 q = take 4 ch then 85 else 0)"

definition sample_host :: host where
  "sample_host =
     \<lparr>str_nontext = (\<lambda>x. []), scorer = prefix_scorer, name = ''EntityTypoFixer'',
      path_join = (\<lambda>d f. d @ ''/'' @ f)\<rparr>"

definition cities :: component where
  "cities = \<lparr>entities = [''Berlin'', ''Munich''], score_cutoff = PInt 80\<rparr>"

section \<open>Properties\<close>

subsection \<open>The fuzzy-matching routine returns the best match when it clears the cutoff\<close>

lemma extractWithoutOrder_int:
  "extractWithoutOrder sc v L (PInt c) = Inr (filter (\<lambda>p. c \<le> snd p) (map (\<lambda>m. (m, sc v m)) L))"
  by (induction L) simp_all

lemma first_max_None: "first_max ps = None \<longleftrightarrow> ps = []"
  by (cases ps) (simp_all split: option.splits)

lemma first_max_mem: "first_max ps = Some q \<Longrightarrow> q \<in> set ps"
  by (induction ps arbitrary: q) (auto split: option.splits if_splits)

lemma first_max_upper: "first_max ps = Some q \<Longrightarrow> p \<in> set ps \<Longrightarrow> snd p \<le> snd q"
  by (induction ps arbitrary: q) (fastforce split: option.splits if_splits simp: first_max_None)+

lemma first_max_filter:
  "first_max (filter (\<lambda>p. c \<le> snd p) ps) =
     (case first_max ps of None \<Rightarrow> None | Some q \<Rightarrow> if c \<le> snd q then Some q else None)"
proof (induction ps)
  case Nil
  show ?case by simp
next
  case (Cons p ps)
  show ?case
  proof (cases "first_max ps")
    case None
    then have "ps = []" by (simp add: first_max_None)
    then show ?thesis by simp
  next
    case (Some q)
    with Cons show ?thesis
      by (auto split: option.splits if_splits)
  qed
qed

lemma extractOne_best_match:
  "extractOne sc v L (PInt c) =
     Inr (case best_match sc v L of None \<Rightarrow> None | Some q \<Rightarrow> if c \<le> snd q then Some q else None)"
  by (simp add: extractOne_def best_match_def extractWithoutOrder_int first_max_filter)

lemma best_match_Some:
  assumes "best_match sc v L = Some (m, s)"
  shows "m \<in> set L" and "s = sc v m" and "\<And>x. x \<in> set L \<Longrightarrow> sc v x \<le> s"
proof -
  from assms have mem: "(m, s) \<in> set (map (\<lambda>m. (m, sc v m)) L)"
    unfolding best_match_def by (rule first_max_mem)
  then show "m \<in> set L" and "s = sc v m" by auto
  fix x assume "x \<in> set L"
  then have "(x, sc v x) \<in> set (map (\<lambda>m. (m, sc v m)) L)" by auto
  with assms have "snd (x, sc v x) \<le> snd (m, s)"
    unfolding best_match_def by (rule first_max_upper)
  then show "sc v x \<le> s" by simp
qed

lemma extractOne_below:
  assumes "\<And>m. m \<in> set L \<Longrightarrow> sc v m < c"
  shows "extractOne sc v L (PInt c) = Inr None"
proof (cases "best_match sc v L")
  case None
  then show ?thesis by (simp add: extractOne_best_match)
next
  case (Some q)
  obtain m s where q: "q = (m, s)" by (cases q)
  from Some q best_match_Some[of sc v L m s] assms have "s < c" by auto
  with Some q show ?thesis by (simp add: extractOne_best_match)
qed

subsection \<open>One record, and the loop over the records\<close>

lemma add_processor_name_frame:
  "k \<noteq> ''processors'' \<Longrightarrow> fst (add_processor_name h e) k = e k"
  by (simp add: add_processor_name_def split: option.splits pyval.splits)

lemma add_processor_name_absent:
  "e ''processors'' = None \<Longrightarrow>
   fst (add_processor_name h e) ''processors'' = Some (PList [PStr (name h)])"
  by (simp add: add_processor_name_def)

lemma add_processor_name_present:
  "e ''processors'' = Some (PList ps) \<Longrightarrow>
   fst (add_processor_name h e) ''processors'' = Some (PList (ps @ [PStr (name h)]))"
  by (simp add: add_processor_name_def)

lemma fix_one_frame:
  "k \<noteq> ''value'' \<Longrightarrow> k \<noteq> ''processors'' \<Longrightarrow> fst (fix_one h self e) k = e k"
  by (simp add: fix_one_def Let_def add_processor_name_frame split: option.splits sum.splits)

lemma fix_one_below:
  assumes "score_cutoff self = PInt c" and "e ''value'' = Some x"
    and "\<And>m. m \<in> set (entities self) \<Longrightarrow> scorer h (py_str h x) m < c"
  shows "fix_one h self e = (e, None)"
  using assms by (simp add: fix_one_def extractOne_below)

lemma fix_one_same:
  assumes "score_cutoff self = PInt c" and "e ''value'' = Some x"
    and "best_match (scorer h) (py_str h x) (entities self) = Some (py_str h x, s)"
  shows "fix_one h self e = (e, None)"
  using assms by (simp add: fix_one_def extractOne_best_match Let_def)

lemma fix_one_corrected:
  assumes "score_cutoff self = PInt c" and "e ''value'' = Some x"
    and "best_match (scorer h) (py_str h x) (entities self) = Some (m, s)"
    and "c \<le> s" and "m \<noteq> py_str h x"
  shows "fix_one h self e = add_processor_name h (e(''value'' \<mapsto> PStr m))"
  using assms by (simp add: fix_one_def extractOne_best_match)

lemma fix_one_well_formed:
  assumes "score_cutoff self = PInt c" and "well_formed e"
  shows "snd (fix_one h self e) = None"
  using assms
  by (auto simp: fix_one_def well_formed_def extractOne_best_match add_processor_name_def Let_def
      split: option.splits pyval.splits)

lemma fix_loop_Cons:
  "fix_loop h self (e # es) =
     (if snd (fix_one h self e) = None
      then (fst (fix_one h self e) # fst (fix_loop h self es), snd (fix_loop h self es))
      else (fst (fix_one h self e) # es, snd (fix_one h self e)))"
  by (simp split: prod.splits option.splits)

lemma fix_loop_length: "length (fst (fix_loop h self es)) = length es"
  by (induction es) (simp_all add: fix_loop_Cons del: fix_loop.simps(2))

lemma fix_loop_nth:
  "i < length es \<Longrightarrow>
   fst (fix_loop h self es) ! i = es ! i \<or>
   fst (fix_loop h self es) ! i = fst (fix_one h self (es ! i))"
proof (induction es arbitrary: i)
  case Nil
  then show ?case by simp
next
  case (Cons e es)
  show ?case
  proof (cases i)
    case 0
    then show ?thesis by (simp add: fix_loop_Cons del: fix_loop.simps(2))
  next
    case (Suc j)
    with Cons.prems have "j < length es" by simp
    from Cons.IH[OF this] Suc show ?thesis
      by (simp add: fix_loop_Cons del: fix_loop.simps(2))
  qed
qed

lemma fix_loop_no_error:
  "(\<And>e. e \<in> set es \<Longrightarrow> snd (fix_one h self e) = None) \<Longrightarrow>
   fix_loop h self es = (map (\<lambda>e. fst (fix_one h self e)) es, None)"
  by (induction es) (simp_all add: fix_loop_Cons del: fix_loop.simps(2))

lemma fix_loop_well_formed:
  assumes "score_cutoff self = PInt c" and "\<And>e. e \<in> set es \<Longrightarrow> well_formed e"
  shows "fix_loop h self es = (map (\<lambda>e. fst (fix_one h self e)) es, None)"
  using assms by (intro fix_loop_no_error fix_one_well_formed)

subsection \<open>Claims about the correction of a message's records\<close>

text \<open>
  C1. For every canonical list, integer cutoff \<open>c\<close> and entity record whose value coerces
  to the text \<open>v\<close>: if every canonical string scores below \<open>c\<close> against \<open>v\<close>, then
  \<^verbatim>\<open>fix_entity_typo\<close> leaves that record as it was; its \<^verbatim>\<open>value\<close> is still the value
  that coerces to \<open>v\<close> and its \<^verbatim>\<open>processors\<close> field is unchanged. This holds for the
  record at any position of the sequence, whatever happens to the other records.
\<close>

theorem no_match_leaves_record:
  assumes "score_cutoff self = PInt c"
    and "i < length es"
    and "(es ! i) ''value'' = Some x"
    and "py_str h x = v"
    and "\<forall>m \<in> set (entities self). scorer h v m < c"
  shows "length (fst (snd (fix_entity_typo h self es))) = length es
    \<and> fst (snd (fix_entity_typo h self es)) ! i = es ! i
    \<and> (fst (snd (fix_entity_typo h self es)) ! i) ''value'' = Some x
    \<and> (fst (snd (fix_entity_typo h self es)) ! i) ''processors'' = (es ! i) ''processors''"
proof -
  from assms have one: "fix_one h self (es ! i) = (es ! i, None)"
    by (intro fix_one_below[where c = c and x = x]) auto
  from fix_loop_nth[OF assms(2), of h self] one
  have "fst (fix_loop h self es) ! i = es ! i" by auto
  with assms(3) show ?thesis
    by (simp add: fix_entity_typo_def fix_loop_length)
qed

text \<open>
  The spec's example: with the canonical list Berlin, Munich and cutoff 80, the value Tokyo
  stays, also when a later record of the sequence has no value at all.
\<close>

theorem no_match_leaves_record_witness:
  "fst (snd (fix_entity_typo sample_host cities [[''value'' \<mapsto> PStr ''Tokyo''], Map.empty])) ! 0
     = [''value'' \<mapsto> PStr ''Tokyo'']
   \<and> fix_entity_typo sample_host cities [[''value'' \<mapsto> PStr ''Tokyo'']] =
     (cities, [[''value'' \<mapsto> PStr ''Tokyo'']], None)"
proof -
  have sc: "score_cutoff cities = PInt 80" by (simp add: cities_def)
  have below: "\<forall>m \<in> set (entities cities). scorer sample_host ''Tokyo'' m < 80"
    by (simp add: cities_def sample_host_def prefix_scorer_def)
  have str: "py_str sample_host (PStr ''Tokyo'') = ''Tokyo''" by (simp add: py_str_def)
  have "fst (snd (fix_entity_typo sample_host cities [[''value'' \<mapsto> PStr ''Tokyo''], Map.empty])) ! 0
     = [[''value'' \<mapsto> PStr ''Tokyo''], Map.empty] ! 0"
    using no_match_leaves_record[OF sc _ _ str below, of 0 "[[''value'' \<mapsto> PStr ''Tokyo''], Map.empty]"]
    by simp
  moreover have "fix_entity_typo sample_host cities [[''value'' \<mapsto> PStr ''Tokyo'']] =
     (cities, [[''value'' \<mapsto> PStr ''Tokyo'']], None)"
    by (simp add: cities_def sample_host_def prefix_scorer_def py_str_def fix_entity_typo_def
      fix_one_def extractOne_def)
  ultimately show ?thesis by simp
qed

text \<open>
  C2. For every canonical list, integer cutoff \<open>c\<close> and entity record whose value coerces
  to the text \<open>v\<close>: if the best fuzzy match \<open>m\<close> of \<open>v\<close> against the list has a score at
  or above \<open>c\<close> and \<open>m\<close> differs from \<open>v\<close>, then \<^verbatim>\<open>fix_entity_typo\<close>, run on a sequence
  of well-formed records, raises nothing, overwrites the record's \<^verbatim>\<open>value\<close> with \<open>m\<close>
  and appends the component's name to the record's \<^verbatim>\<open>processors\<close>: the sequence is
  created with that one entry when the field is absent, and keeps all its prior entries, in
  order, before the new one otherwise.
\<close>

theorem correction_overwrites_and_records:
  assumes "score_cutoff self = PInt c"
    and "\<forall>e \<in> set es. well_formed e"
    and "i < length es"
    and "(es ! i) ''value'' = Some x"
    and "py_str h x = v"
    and "best_match (scorer h) v (entities self) = Some (m, s)"
    and "c \<le> s"
    and "m \<noteq> v"
  shows "\<exists>es'. fix_entity_typo h self es = (self, es', None)
    \<and> length es' = length es
    \<and> (es' ! i) ''value'' = Some (PStr m)
    \<and> ((es ! i) ''processors'' = None \<longrightarrow>
         (es' ! i) ''processors'' = Some (PList [PStr (name h)]))
    \<and> (\<forall>ps. (es ! i) ''processors'' = Some (PList ps) \<longrightarrow>
         (es' ! i) ''processors'' = Some (PList (ps @ [PStr (name h)])))"
proof -
  let ?e = "es ! i"
  let ?es' = "map (\<lambda>e. fst (fix_one h self e)) es"
  from assms(1,2) have loop: "fix_loop h self es = (?es', None)"
    by (intro fix_loop_well_formed[where c = c]) auto
  from assms(1,4-8) have one: "fix_one h self ?e = add_processor_name h (?e(''value'' \<mapsto> PStr m))"
    by (intro fix_one_corrected[where c = c and x = x and s = s]) auto
  from assms(3) have nth: "?es' ! i = fst (add_processor_name h (?e(''value'' \<mapsto> PStr m)))"
    by (simp add: one)
  have val: "(?es' ! i) ''value'' = Some (PStr m)"
    by (simp add: nth add_processor_name_frame)
  have absent: "(?es' ! i) ''processors'' = Some (PList [PStr (name h)])"
    if "?e ''processors'' = None"
    using that by (simp add: nth add_processor_name_absent)
  have present: "(?es' ! i) ''processors'' = Some (PList (ps @ [PStr (name h)]))"
    if "?e ''processors'' = Some (PList ps)" for ps
    using that by (simp add: nth add_processor_name_present)
  from loop val absent present show ?thesis
    by (simp add: fix_entity_typo_def)
qed

text \<open>
  The spec's example, Berln corrected to Berlin with a fresh \<^verbatim>\<open>processors\<close> list, and a
  second record whose \<^verbatim>\<open>processors\<close> list already has an entry.
\<close>

theorem correction_overwrites_and_records_witness:
  "fix_entity_typo sample_host cities
     [[''value'' \<mapsto> PStr ''Berln''],
      [''value'' \<mapsto> PStr ''Munih'', ''processors'' \<mapsto> PList [PStr ''Upstream'']]]
   = (cities,
      [[''value'' \<mapsto> PStr ''Berlin'', ''processors'' \<mapsto> PList [PStr ''EntityTypoFixer'']],
       [''value'' \<mapsto> PStr ''Munich'',
        ''processors'' \<mapsto> PList [PStr ''Upstream'', PStr ''EntityTypoFixer'']]],
      None)
   \<and> (fst (snd (fix_entity_typo sample_host cities
     [[''value'' \<mapsto> PStr ''Berln''],
      [''value'' \<mapsto> PStr ''Munih'', ''processors'' \<mapsto> PList [PStr ''Upstream'']]])) ! 1)
       ''processors'' = Some (PList [PStr ''Upstream'', PStr ''EntityTypoFixer''])"
proof -
  let ?es = "[[''value'' \<mapsto> PStr ''Berln''],
      [''value'' \<mapsto> PStr ''Munih'', ''processors'' \<mapsto> PList [PStr ''Upstream'']]]"
  have sc: "score_cutoff cities = PInt 80" by (simp add: cities_def)
  have wf: "\<forall>e \<in> set ?es. well_formed e" by (simp add: well_formed_def)
  have str: "py_str sample_host (PStr ''Munih'') = ''Munih''" by (simp add: py_str_def)
  have best: "best_match (scorer sample_host) ''Munih'' (entities cities) = Some (''Munich'', 85)"
    by (simp add: best_match_def cities_def sample_host_def prefix_scorer_def)
  have name: "name sample_host = ''EntityTypoFixer''" by (simp add: sample_host_def)
  have "(fst (snd (fix_entity_typo sample_host cities ?es)) ! 1) ''processors''
      = Some (PList [PStr ''Upstream'', PStr ''EntityTypoFixer''])"
    using correction_overwrites_and_records[OF sc wf _ _ str best, of 1] name
    by auto
  moreover have "fix_entity_typo sample_host cities ?es
   = (cities,
      [[''value'' \<mapsto> PStr ''Berlin'', ''processors'' \<mapsto> PList [PStr ''EntityTypoFixer'']],
       [''value'' \<mapsto> PStr ''Munich'',
        ''processors'' \<mapsto> PList [PStr ''Upstream'', PStr ''EntityTypoFixer'']]],
      None)"
    by (simp add: cities_def sample_host_def prefix_scorer_def py_str_def fix_entity_typo_def
      fix_one_def extractOne_def add_processor_name_def)
  ultimately show ?thesis by simp
qed

text \<open>
  C3. For every canonical list, integer cutoff and entity record whose value coerces to the
  text \<open>v\<close>: if the best fuzzy match of \<open>v\<close> against the list is \<open>v\<close> itself, whatever its
  score \<open>s\<close> (at or above the cutoff, or below it), then \<^verbatim>\<open>fix_entity_typo\<close> leaves the
  record entirely unchanged, and so does running it again on its own result.
\<close>

theorem exact_match_is_noop:
  assumes "score_cutoff self = PInt c"
    and "i < length es"
    and "(es ! i) ''value'' = Some x"
    and "py_str h x = v"
    and "best_match (scorer h) v (entities self) = Some (v, s)"
  shows "fst (snd (fix_entity_typo h self es)) ! i = es ! i
    \<and> fst (snd (fix_entity_typo h self (fst (snd (fix_entity_typo h self es))))) ! i = es ! i"
proof -
  have step: "fst (fix_loop h self ys) ! i = ys ! i"
    if "i < length ys" and "(ys ! i) ''value'' = Some x" for ys
  proof -
    from assms(1,4,5) that(2) have "fix_one h self (ys ! i) = (ys ! i, None)"
      by (intro fix_one_same[where c = c and x = x and s = s]) auto
    with fix_loop_nth[OF that(1), of h self] show ?thesis by auto
  qed
  have first: "fst (fix_loop h self es) ! i = es ! i"
    using assms(2,3) by (rule step)
  have "fst (fix_loop h self (fst (fix_loop h self es))) ! i = fst (fix_loop h self es) ! i"
    using assms(2,3) first by (intro step) (simp_all add: fix_loop_length)
  with first show ?thesis by (simp add: fix_entity_typo_def)
qed

text \<open>A record whose value is the canonical Munich, which scores 100 against itself.\<close>

theorem exact_match_is_noop_witness:
  "fst (snd (fix_entity_typo sample_host cities
      [[''value'' \<mapsto> PStr ''Munich'', ''entity'' \<mapsto> PStr ''city'']])) ! 0
     = [''value'' \<mapsto> PStr ''Munich'', ''entity'' \<mapsto> PStr ''city'']"
proof -
  have sc: "score_cutoff cities = PInt 80" by (simp add: cities_def)
  have str: "py_str sample_host (PStr ''Munich'') = ''Munich''" by (simp add: py_str_def)
  have best: "best_match (scorer sample_host) ''Munich'' (entities cities) = Some (''Munich'', 100)"
    by (simp add: best_match_def cities_def sample_host_def prefix_scorer_def)
  show ?thesis
    using exact_match_is_noop[OF sc _ _ str best,
        of 0 "[[''value'' \<mapsto> PStr ''Munich'', ''entity'' \<mapsto> PStr ''city'']]"]
    by simp
qed

text \<open>
  C10. For every entity record that \<^verbatim>\<open>fix_entity_typo\<close> is given, every field other than
  \<^verbatim>\<open>value\<close> and \<^verbatim>\<open>processors\<close> is the same after the call as before it, whether or not
  the record is corrected and whether or not the call raises; the sequence keeps its length.
\<close>

theorem correction_frame:
  assumes "i < length es" and "k \<noteq> ''value''" and "k \<noteq> ''processors''"
  shows "length (fst (snd (fix_entity_typo h self es))) = length es
    \<and> (fst (snd (fix_entity_typo h self es)) ! i) k = (es ! i) k"
proof -
  from fix_loop_nth[OF assms(1), of h self] fix_one_frame[OF assms(2,3), of h self "es ! i"]
  have "(fst (fix_loop h self es) ! i) k = (es ! i) k" by auto
  then show ?thesis by (simp add: fix_entity_typo_def fix_loop_length)
qed

text \<open>A record that is corrected from Berln to Berlin keeps its \<^verbatim>\<open>start\<close> field.\<close>

theorem correction_frame_witness:
  "(fst (snd (fix_entity_typo sample_host cities
      [[''value'' \<mapsto> PStr ''Berln'', ''entity'' \<mapsto> PStr ''city'', ''start'' \<mapsto> PInt 3]])) ! 0) ''start''
     = Some (PInt 3)
   \<and> (fst (snd (fix_entity_typo sample_host cities
      [[''value'' \<mapsto> PStr ''Berln'', ''entity'' \<mapsto> PStr ''city'', ''start'' \<mapsto> PInt 3]])) ! 0) ''value''
     = Some (PStr ''Berlin'')"
proof -
  have "(fst (snd (fix_entity_typo sample_host cities
      [[''value'' \<mapsto> PStr ''Berln'', ''entity'' \<mapsto> PStr ''city'', ''start'' \<mapsto> PInt 3]])) ! 0) ''start''
     = Some (PInt 3)"
    using correction_frame[of 0
        "[[''value'' \<mapsto> PStr ''Berln'', ''entity'' \<mapsto> PStr ''city'', ''start'' \<mapsto> PInt 3]]"
        "''start''" sample_host cities]
    by simp
  moreover have "(fst (snd (fix_entity_typo sample_host cities
      [[''value'' \<mapsto> PStr ''Berln'', ''entity'' \<mapsto> PStr ''city'', ''start'' \<mapsto> PInt 3]])) ! 0) ''value''
     = Some (PStr ''Berlin'')"
    by (simp add: cities_def sample_host_def prefix_scorer_def py_str_def fix_entity_typo_def
      fix_one_def extractOne_def add_processor_name_def)
  ultimately show ?thesis by simp
qed

subsection \<open>Claims about processing, training, construction and persistence\<close>

lemma init_Some:
  "init (Some cfg) ents =
     Inr \<lparr>entities = (case ents of None \<Rightarrow> [] | Some es \<Rightarrow> es),
          score_cutoff = (case cfg ''score_cutoff'' of Some c \<Rightarrow> c | None \<Rightarrow> PInt 80)\<rparr>"
  by (simp add: init_def defaults_def split: option.splits)

text \<open>
  C8. For every canonical list and every sequence of entity records, the canonical list of
  the component after \<^verbatim>\<open>fix_entity_typo\<close>, and after \<^verbatim>\<open>process\<close> on any message, is
  exactly the list before the call: nothing is added, removed or reordered, whether or not
  the call raises.
\<close>

theorem processing_keeps_canonical_list:
  "entities (fst (fix_entity_typo h self es)) = entities self
   \<and> entities (fst (process h self msg)) = entities self"
  by (simp add: fix_entity_typo_def process_def Let_def split: prod.splits option.splits)

text \<open>A message whose one record is corrected: the list is still Berlin, Munich.\<close>

theorem processing_keeps_canonical_list_witness:
  "entities (fst (process sample_host cities
      \<lparr>data = [''entities'' \<mapsto> [[''value'' \<mapsto> PStr ''Berln'']]], output_properties = {}\<rparr>))
     = [''Berlin'', ''Munich'']"
  using processing_keeps_canonical_list[of sample_host cities "[]"
      "\<lparr>data = [''entities'' \<mapsto> [[''value'' \<mapsto> PStr ''Berln'']]], output_properties = {}\<rparr>"]
  by (simp add: cities_def)

text \<open>
  What \<^verbatim>\<open>process\<close> does to that message: the corrected records are written back and the
  property is flagged as part of the output.
\<close>

lemma process_sample_message:
  "process sample_host cities
      \<lparr>data = [''entities'' \<mapsto> [[''value'' \<mapsto> PStr ''Berln'']]], output_properties = {}\<rparr>
   = (cities,
      \<lparr>data = [''entities'' \<mapsto> [[''value'' \<mapsto> PStr ''Berlin'',
           ''processors'' \<mapsto> PList [PStr ''EntityTypoFixer'']]]],
       output_properties = {''entities''}\<rparr>, None)"
  by (simp add: process_def ENTITIES_def cities_def sample_host_def prefix_scorer_def py_str_def
      fix_entity_typo_def fix_one_def extractOne_def add_processor_name_def)

text \<open>
  C7. For every training corpus, \<^verbatim>\<open>train\<close> sets the canonical list to the keys of the
  corpus's entity-synonym mapping, in the order of the corpus, whatever the list held
  before; the cutoff is not touched. \<^verbatim>\<open>train\<close> has no result besides this update.
\<close>

theorem train_replaces_entities:
  "entities (train self td) = map fst (entity_synonyms td)
   \<and> score_cutoff (train self td) = score_cutoff self"
  by (simp add: train_def)

text \<open>Training the component that holds Berlin, Munich on a corpus with two other keys.\<close>

theorem train_replaces_entities_witness:
  "entities (train cities \<lparr>entity_synonyms = [(''NYC'', ''New York''), (''LA'', ''Los Angeles'')]\<rparr>)
     = [''NYC'', ''LA'']"
  using train_replaces_entities[of cities
      "\<lparr>entity_synonyms = [(''NYC'', ''New York''), (''LA'', ''Los Angeles'')]\<rparr>"]
  by simp

text \<open>
  C9. Constructing the component with the configuration omitted (\<^verbatim>\<open>None\<close>) raises
  \<^verbatim>\<open>AttributeError\<close> at the read of \<^verbatim>\<open>score_cutoff\<close>, whatever the entities argument.
  With a configuration dictionary the constructor succeeds: the cutoff is the default 80
  when the dictionary lacks the key \<^verbatim>\<open>score_cutoff\<close>, and the dictionary's entry otherwise.
\<close>

theorem init_without_config_raises:
  "init None ents = Inl AttributeError
   \<and> (\<forall>cfg. cfg ''score_cutoff'' = None \<longrightarrow>
        (\<exists>c. init (Some cfg) ents = Inr c \<and> score_cutoff c = PInt 80))
   \<and> (\<forall>cfg v. cfg ''score_cutoff'' = Some v \<longrightarrow>
        (\<exists>c. init (Some cfg) ents = Inr c \<and> score_cutoff c = v))"
  by (simp add: init_Some) (simp add: init_def)

text \<open>No configuration, an empty configuration, and a configuration that sets the cutoff.\<close>

theorem init_without_config_raises_witness:
  "init None (Some [''Berlin'']) = Inl AttributeError
   \<and> (\<exists>c. init (Some Map.empty) (Some [''Berlin'']) = Inr c \<and> score_cutoff c = PInt 80)
   \<and> (\<exists>c. init (Some [''score_cutoff'' \<mapsto> PInt 90]) (Some [''Berlin'']) = Inr c
          \<and> score_cutoff c = PInt 90)"
  using init_without_config_raises[of "Some [''Berlin'']"]
  by simp

text \<open>
  C4. For every file-name stem \<open>f\<close> and directory \<open>d\<close>: when the canonical list is not
  empty, \<^verbatim>\<open>persist\<close> stores the list as a JSON array in the file \<open>f\<close> followed by
  \<^verbatim>\<open>.json\<close>, at the path that joins \<open>d\<close> and that name, changes no other file, and
  returns the descriptor that maps \<^verbatim>\<open>file\<close> to that name; when the list is empty it
  leaves the files as they are and returns the descriptor that maps \<^verbatim>\<open>file\<close> to
  \<^verbatim>\<open>None\<close>.
\<close>

theorem persist_descriptor_and_file:
  "(entities self \<noteq> [] \<longrightarrow>
      persist h self f d fs =
        ([''file'' \<mapsto> PStr (f @ ''.json'')],
         fs(path_join h d (f @ ''.json'') \<mapsto> JsonStrings (entities self))))
   \<and> (entities self = [] \<longrightarrow> persist h self f d fs = ([''file'' \<mapsto> PNone], fs))"
  by (simp add: persist_def write_json_to_file_def Let_def)

text \<open>Persisting the list Berlin, Munich, and persisting an empty list.\<close>

theorem persist_descriptor_and_file_witness:
  "persist sample_host cities ''component_1_EntityTypoFixer'' ''models/nlu'' Map.empty =
     ([''file'' \<mapsto> PStr ''component_1_EntityTypoFixer.json''],
      [''models/nlu/component_1_EntityTypoFixer.json'' \<mapsto> JsonStrings [''Berlin'', ''Munich'']])
   \<and> persist sample_host \<lparr>entities = [], score_cutoff = PInt 80\<rparr> ''component_1_EntityTypoFixer''
       ''models/nlu'' Map.empty = ([''file'' \<mapsto> PNone], Map.empty)"
  using persist_descriptor_and_file[of cities sample_host "''component_1_EntityTypoFixer''"
      "''models/nlu''" Map.empty]
    persist_descriptor_and_file[of "\<lparr>entities = [], score_cutoff = PInt 80\<rparr>" sample_host
      "''component_1_EntityTypoFixer''" "''models/nlu''" Map.empty]
  by (simp add: cities_def sample_host_def)

text \<open>
  C5. For every non-empty canonical list: persisting it to a directory and then loading
  from the returned descriptor and the same directory, on the files that \<^verbatim>\<open>persist\<close>
  left, succeeds and gives a component whose canonical list is the same list, element for
  element in the same order. The descriptor carries no cutoff, so the loaded component has
  the default cutoff.
\<close>

theorem persist_then_load:
  assumes "entities self \<noteq> []"
  shows "load h (fst (persist h self f d fs)) d (snd (persist h self f d fs)) =
           Inr \<lparr>entities = entities self, score_cutoff = PInt 80\<rparr>"
  using assms
  by (simp add: persist_def write_json_to_file_def load_def init_Some Let_def)

text \<open>The round trip of the list Berlin, Munich through an empty file system.\<close>

theorem persist_then_load_witness:
  "load sample_host (fst (persist sample_host cities ''fixer'' ''models'' Map.empty)) ''models''
     (snd (persist sample_host cities ''fixer'' ''models'' Map.empty)) =
   Inr \<lparr>entities = [''Berlin'', ''Munich''], score_cutoff = PInt 80\<rparr>"
  using persist_then_load[of cities sample_host "''fixer''" "''models''" Map.empty]
  by (simp add: cities_def)

text \<open>
  C6. For every descriptor and directory: if the descriptor names no file (the key
  \<^verbatim>\<open>file\<close> is missing or holds \<^verbatim>\<open>None\<close>), or it names a file that does not exist at the
  path joining the directory and the name, then \<^verbatim>\<open>load\<close> raises nothing and returns a
  component whose canonical list is empty.
\<close>

theorem load_without_file:
  assumes "meta ''file'' = None \<or> meta ''file'' = Some PNone
     \<or> (\<exists>f. meta ''file'' = Some (PStr f) \<and> fs (path_join h d f) = None)"
  shows "\<exists>c. load h meta d fs = Inr c \<and> entities c = []"
  using assms
  by (auto simp: load_def init_Some Let_def)

text \<open>
  The descriptor of an empty list, and a descriptor naming a file that is not among the
  files of the directory.
\<close>

theorem load_without_file_witness:
  "(\<exists>c. load sample_host [''file'' \<mapsto> PNone] ''models'' Map.empty = Inr c \<and> entities c = [])
   \<and> (\<exists>c. load sample_host [''file'' \<mapsto> PStr ''fixer.json''] ''models''
          [''models/other.json'' \<mapsto> JsonStrings [''Berlin'']] = Inr c \<and> entities c = [])"
proof -
  have "\<exists>c. load sample_host [''file'' \<mapsto> PNone] ''models'' Map.empty = Inr c \<and> entities c = []"
    using load_without_file[of "[''file'' \<mapsto> PNone]" Map.empty sample_host "''models''"]
    by simp
  moreover have "\<exists>c. load sample_host [''file'' \<mapsto> PStr ''fixer.json''] ''models''
          [''models/other.json'' \<mapsto> JsonStrings [''Berlin'']] = Inr c \<and> entities c = []"
    using load_without_file[of "[''file'' \<mapsto> PStr ''fixer.json'']"
        "[''models/other.json'' \<mapsto> JsonStrings [''Berlin'']]" sample_host "''models''"]
    by (simp add: sample_host_def)
  ultimately show ?thesis by simp
qed

text \<open>
  Two faults that do propagate: \<^verbatim>\<open>load\<close> on a stored file that is not JSON, and
  \<^verbatim>\<open>fix_entity_typo\<close> on a sequence in which one record has no \<^verbatim>\<open>value\<close>, where the
  loop stops after correcting the records before it.
\<close>

lemma load_malformed_file:
  "load sample_host [''file'' \<mapsto> PStr ''fixer.json''] ''models'' [''models/fixer.json'' \<mapsto> NotJson]
     = Inl JsonError"
  by (simp add: load_def sample_host_def)

lemma fix_entity_typo_stops_at_fault:
  "fix_entity_typo sample_host cities
     [[''value'' \<mapsto> PStr ''Berln''], Map.empty, [''value'' \<mapsto> PStr ''Munih'']]
   = (cities,
      [[''value'' \<mapsto> PStr ''Berlin'', ''processors'' \<mapsto> PList [PStr ''EntityTypoFixer'']],
       Map.empty, [''value'' \<mapsto> PStr ''Munih'']],
      Some KeyError)"
  by (simp add: cities_def sample_host_def prefix_scorer_def py_str_def fix_entity_typo_def
      fix_one_def extractOne_def add_processor_name_def)

end
